theory Spec2Isabelle
  imports Main "HOL-Library.Word" "HOL-Library.Char_ord" "HOL-Library.List_Lexorder"
begin

section \<open>The user repository and its HTTP handlers\<close>

text \<open>
  The program keeps \<^verbatim>\<open>User\<close> values in a Go map from id to user, behind the five
  methods of \<^verbatim>\<open>InMemoryUserRepository\<close>, and serves them through one HTTP handler per
  method. Every method takes the repository's mutex on entry and releases it on return
  (\<^verbatim>\<open>defer repo.mu.Unlock()\<close>), so between two calls of a sequential run the mutex is
  always free. The model is that sequential run: a method is a function from the state
  before the call to its results and the state after it, and the mutex is left out.
\<close>

subsection \<open>Data\<close>

text \<open>
  \<^verbatim>\<open>type User struct { ID string; Name string; Age int }\<close>. Go's \<^verbatim>\<open>int\<close> is taken as
  the 64-bit two's-complement integer of the 64-bit targets; the program never computes
  with an age, it only stores and compares it.
\<close>

record User =
  ID :: string
  Name :: string
  Age :: "64 word"

text \<open>The zero value \<^verbatim>\<open>User{}\<close>.\<close>

definition User_zero :: User where
  "User_zero = \<lparr>ID = [], Name = [], Age = 0\<rparr>"

text \<open>
  An error is made by \<^verbatim>\<open>errors.New(text)\<close> and read by its method \<^verbatim>\<open>Error()\<close>.
  A method that returns Go's \<^verbatim>\<open>error\<close> returns \<open>None\<close> for \<^verbatim>\<open>nil\<close>.
\<close>

datatype error = errors_New string

fun Error :: "error \<Rightarrow> string" where
  "Error (errors_New text) = text"

text \<open>The two errors of the repository, under the names the specification uses.\<close>

definition AlreadyExists :: error where
  "AlreadyExists = errors_New ''user already exists''"

definition NotFound :: error where
  "NotFound = errors_New ''user not found''"

text \<open>\<^verbatim>\<open>type InMemoryUserRepository struct { users map[string]User; mu sync.Mutex }\<close>\<close>

record InMemoryUserRepository =
  users :: "string \<rightharpoonup> User"

definition NewInMemoryUserRepository :: InMemoryUserRepository where
  "NewInMemoryUserRepository = \<lparr>users = Map.empty\<rparr>"

subsection \<open>The repository methods\<close>

text \<open>
  Each method returns what the Go method returns, paired with the repository after the
  call where the method can write to the map.
\<close>

definition Create :: "InMemoryUserRepository \<Rightarrow> User \<Rightarrow> error option \<times> InMemoryUserRepository" where
  "Create repo user =
     (case users repo (ID user) of
        Some _ \<Rightarrow> (Some (errors_New ''user already exists''), repo)
      | None \<Rightarrow> (None, repo\<lparr>users := (users repo)(ID user \<mapsto> user)\<rparr>))"

text \<open>
  \<^verbatim>\<open>for _, user := range repo.users { userList = append(userList, user) }\<close>.
  Go leaves the order in which \<^verbatim>\<open>range\<close> visits a map unspecified, and it may differ
  from one loop to the next. The order is therefore an argument: the list \<open>ks\<close> of keys
  in the order this loop visits them. A \<^verbatim>\<open>range\<close> visits every key of the map once,
  which is \<open>range_order\<close>. A key with no entry contributes nothing.
\<close>

fun range_append :: "(string \<rightharpoonup> User) \<Rightarrow> string list \<Rightarrow> User list \<Rightarrow> User list" where
  "range_append m [] userList = userList"
| "range_append m (k # ks) userList =
     (case m k of
        Some user \<Rightarrow> range_append m ks (userList @ [user])
      | None \<Rightarrow> range_append m ks userList)"

definition range_order :: "(string \<rightharpoonup> User) \<Rightarrow> string list \<Rightarrow> bool" where
  "range_order m ks \<longleftrightarrow> distinct ks \<and> set ks = dom m"

text \<open>
  \<^verbatim>\<open>var userList []User\<close> starts as the nil slice, which has length 0 like the empty
  slice; both are the list \<open>[]\<close>.
\<close>

definition List :: "InMemoryUserRepository \<Rightarrow> string list \<Rightarrow> User list \<times> error option" where
  "List repo ks = (range_append (users repo) ks [], None)"

definition Find :: "InMemoryUserRepository \<Rightarrow> string \<Rightarrow> User \<times> error option" where
  "Find repo id' =
     (case users repo id' of
        None \<Rightarrow> (User_zero, Some (errors_New ''user not found''))
      | Some user \<Rightarrow> (user, None))"

definition Update :: "InMemoryUserRepository \<Rightarrow> User \<Rightarrow> error option \<times> InMemoryUserRepository" where
  "Update repo user =
     (case users repo (ID user) of
        None \<Rightarrow> (Some (errors_New ''user not found''), repo)
      | Some _ \<Rightarrow> (None, repo\<lparr>users := (users repo)(ID user \<mapsto> user)\<rparr>))"

definition Delete :: "InMemoryUserRepository \<Rightarrow> string \<Rightarrow> error option \<times> InMemoryUserRepository" where
  "Delete repo id' =
     (case users repo id' of
        None \<Rightarrow> (Some (errors_New ''user not found''), repo)
      | Some _ \<Rightarrow> (None, repo\<lparr>users := (users repo)(id' := None)\<rparr>))"

subsection \<open>Sequential runs\<close>

text \<open>
  A sequential client makes one call after another on the same repository. A call is
  named by its method and arguments; for \<open>List\<close> that includes the order in which its
  loop visits the map.
\<close>

datatype call =
    Create_call User
  | List_call "string list"
  | Find_call string
  | Update_call User
  | Delete_call string

text \<open>The repository a call leaves behind; \<open>List\<close> and \<open>Find\<close> only read the map.\<close>

fun after :: "InMemoryUserRepository \<Rightarrow> call \<Rightarrow> InMemoryUserRepository" where
  "after repo (Create_call user) = snd (Create repo user)"
| "after repo (List_call ks) = repo"
| "after repo (Find_call id') = repo"
| "after repo (Update_call user) = snd (Update repo user)"
| "after repo (Delete_call id') = snd (Delete repo id')"

fun run :: "InMemoryUserRepository \<Rightarrow> call list \<Rightarrow> InMemoryUserRepository" where
  "run repo [] = repo"
| "run repo (c # cs) = run (after repo c) cs"

text \<open>How many \<open>Create\<close> calls, and how many \<open>Delete\<close> calls, of a run returned no error.\<close>

fun Create_succeeded :: "InMemoryUserRepository \<Rightarrow> call \<Rightarrow> bool" where
  "Create_succeeded repo (Create_call user) = (fst (Create repo user) = None)"
| "Create_succeeded repo _ = False"

fun Delete_succeeded :: "InMemoryUserRepository \<Rightarrow> call \<Rightarrow> bool" where
  "Delete_succeeded repo (Delete_call id') = (fst (Delete repo id') = None)"
| "Delete_succeeded repo _ = False"

fun successful_Creates :: "InMemoryUserRepository \<Rightarrow> call list \<Rightarrow> nat" where
  "successful_Creates repo [] = 0"
| "successful_Creates repo (c # cs) =
     (if Create_succeeded repo c then 1 else 0) + successful_Creates (after repo c) cs"

fun successful_Deletes :: "InMemoryUserRepository \<Rightarrow> call list \<Rightarrow> nat" where
  "successful_Deletes repo [] = 0"
| "successful_Deletes repo (c # cs) =
     (if Delete_succeeded repo c then 1 else 0) + successful_Deletes (after repo c) cs"

text \<open>The invariant of the map: every entry is stored under the id it carries.\<close>

definition keyed_by_ID :: "(string \<rightharpoonup> User) \<Rightarrow> bool" where
  "keyed_by_ID m \<longleftrightarrow> (\<forall>k user. m k = Some user \<longrightarrow> ID user = k)"

subsection \<open>The HTTP handlers\<close>

text \<open>
  A handler is built from a value of the interface \<^verbatim>\<open>UserRepository\<close> and calls the
  repository only through it. The interface is the record of its five methods over a
  state \<open>'s\<close> of the implementation; any method of an implementation may change that
  state.
\<close>

record 's UserRepository =
  repo_Create :: "User \<Rightarrow> 's \<Rightarrow> error option \<times> 's"
  repo_List :: "'s \<Rightarrow> (User list \<times> error option) \<times> 's"
  repo_Find :: "string \<Rightarrow> 's \<Rightarrow> (User \<times> error option) \<times> 's"
  repo_Update :: "User \<Rightarrow> 's \<Rightarrow> error option \<times> 's"
  repo_Delete :: "string \<Rightarrow> 's \<Rightarrow> error option \<times> 's"

text \<open>
  \<^verbatim>\<open>*InMemoryUserRepository\<close> as a \<^verbatim>\<open>UserRepository\<close>, the value \<^verbatim>\<open>main\<close> passes to
  every handler. \<open>visit\<close> stands for the runtime's choice of the order in which the loop
  of \<open>List\<close> visits the map.
\<close>

definition InMemory ::
  "(InMemoryUserRepository \<Rightarrow> string list) \<Rightarrow> InMemoryUserRepository UserRepository" where
  "InMemory visit =
     \<lparr>repo_Create = (\<lambda>user repo. Create repo user),
      repo_List = (\<lambda>repo. (List repo (visit repo), repo)),
      repo_Find = (\<lambda>id' repo. (Find repo id', repo)),
      repo_Update = (\<lambda>user repo. Update repo user),
      repo_Delete = (\<lambda>id' repo. Delete repo id')\<rparr>"

text \<open>
  One such choice, for where a definite repository is needed: the keys in ascending
  order.
\<close>

definition ascending :: "InMemoryUserRepository \<Rightarrow> string list" where
  "ascending repo = sorted_list_of_set (dom (users repo))"

text \<open>
  An implementation that keeps, beside the state of the implementation it wraps, the
  list of the calls made on it. It is used to observe whether a handler calls the
  repository at all.
\<close>

datatype called = Called_Create User | Called_List | Called_Find string
  | Called_Update User | Called_Delete string

definition recording :: "'s UserRepository \<Rightarrow> (called list \<times> 's) UserRepository" where
  "recording repo =
     \<lparr>repo_Create = (\<lambda>user (log, s).
        case repo_Create repo user s of (err, s') \<Rightarrow> (err, (log @ [Called_Create user], s'))),
      repo_List = (\<lambda>(log, s).
        case repo_List repo s of (res, s') \<Rightarrow> (res, (log @ [Called_List], s'))),
      repo_Find = (\<lambda>id' (log, s).
        case repo_Find repo id' s of (res, s') \<Rightarrow> (res, (log @ [Called_Find id'], s'))),
      repo_Update = (\<lambda>user (log, s).
        case repo_Update repo user s of (err, s') \<Rightarrow> (err, (log @ [Called_Update user], s'))),
      repo_Delete = (\<lambda>id' (log, s).
        case repo_Delete repo id' s of (err, s') \<Rightarrow> (err, (log @ [Called_Delete id'], s')))\<rparr>"

text \<open>
  The request, as far as a handler reads it: the parsed query string
  \<^verbatim>\<open>r.URL.Query()\<close>, of Go's type \<^verbatim>\<open>url.Values = map[string][]string\<close>, read with
  \<^verbatim>\<open>Get\<close>, which returns the first value of a key and the empty string when the key
  has none.
\<close>

type_synonym Values = "string \<rightharpoonup> string list"

definition Get :: "Values \<Rightarrow> string \<Rightarrow> string" where
  "Get v key = (case v key of None \<Rightarrow> [] | Some [] \<Rightarrow> [] | Some (first # _) \<Rightarrow> first)"

text \<open>
  \<^verbatim>\<open>strconv.Atoi\<close> of Go's standard library, for a 64-bit \<^verbatim>\<open>int\<close>: an optional sign
  \<^verbatim>\<open>+\<close> or \<^verbatim>\<open>-\<close>, then one or more decimal digits and nothing else, and a value
  from \<open>- 2 ^ 63\<close> to \<open>2 ^ 63 - 1\<close>; any other string is an error (\<open>None\<close>).
\<close>

definition digit :: "char \<Rightarrow> nat option" where
  "digit ch =
     (let c = (of_char ch :: nat) in if 48 \<le> c \<and> c \<le> 57 then Some (c - 48) else None)"

fun decimal :: "string \<Rightarrow> nat \<Rightarrow> nat option" where
  "decimal [] n = Some n"
| "decimal (ch # s) n = (case digit ch of None \<Rightarrow> None | Some d \<Rightarrow> decimal s (n * 10 + d))"

definition Atoi :: "string \<Rightarrow> 64 word option" where
  "Atoi s =
     (case s of
        [] \<Rightarrow> None
      | s0 # rest \<Rightarrow>
          (let digits = (if s0 = CHR ''-'' \<or> s0 = CHR ''+'' then rest else s) in
           if digits = [] then None
           else case decimal digits 0 of
                  None \<Rightarrow> None
                | Some n \<Rightarrow>
                    if s0 = CHR ''-''
                    then (if n \<le> 2 ^ 63 then Some (- word_of_nat n) else None)
                    else (if n < 2 ^ 63 then Some (word_of_nat n) else None)))"

text \<open>
  What a handler does with its \<^verbatim>\<open>http.ResponseWriter\<close>. Every path through a handler
  makes exactly one call on it:
  \<^item> \<^verbatim>\<open>http.Error(w, text, code)\<close> replies with status \<open>code\<close> and \<open>text\<close> as the body
    (plain text, which the library ends with a line break);
  \<^item> \<^verbatim>\<open>w.WriteHeader(code)\<close> replies with status \<open>code\<close>, and the handler writes no
    body after it;
  \<^item> \<^verbatim>\<open>json.NewEncoder(w).Encode(v)\<close> writes the JSON form of \<open>v\<close> as the body, with
    the status left at its default 200.
\<close>

datatype response =
    http_Error string nat
  | WriteHeader nat
  | Encode_User User
  | Encode_Users "User list"

abbreviation StatusOK :: nat where "StatusOK \<equiv> 200"
abbreviation StatusCreated :: nat where "StatusCreated \<equiv> 201"
abbreviation StatusBadRequest :: nat where "StatusBadRequest \<equiv> 400"
abbreviation StatusNotFound :: nat where "StatusNotFound \<equiv> 404"
abbreviation StatusInternalServerError :: nat where "StatusInternalServerError \<equiv> 500"

text \<open>
  A handler takes the repository it was built with, the query of the request and the
  state of the repository, and returns its response and the state of the repository
  afterwards.
\<close>

definition createUserHandler :: "'s UserRepository \<Rightarrow> Values \<Rightarrow> 's \<Rightarrow> response \<times> 's" where
  "createUserHandler repo query s =
     (let id' = Get query ''id''; name = Get query ''name''; ageStr = Get query ''age'' in
      if id' = [] \<or> name = [] \<or> ageStr = []
      then (http_Error ''Missing parameters'' StatusBadRequest, s)
      else case Atoi ageStr of
             None \<Rightarrow> (http_Error ''Invalid age parameter'' StatusBadRequest, s)
           | Some age \<Rightarrow>
               (case repo_Create repo \<lparr>ID = id', Name = name, Age = age\<rparr> s of
                  (Some err, s') \<Rightarrow> (http_Error (Error err) StatusInternalServerError, s')
                | (None, s') \<Rightarrow> (WriteHeader StatusCreated, s')))"

definition listUsersHandler :: "'s UserRepository \<Rightarrow> Values \<Rightarrow> 's \<Rightarrow> response \<times> 's" where
  "listUsersHandler repo query s =
     (case repo_List repo s of
        ((userList, Some err), s') \<Rightarrow> (http_Error (Error err) StatusInternalServerError, s')
      | ((userList, None), s') \<Rightarrow> (Encode_Users userList, s'))"

definition findUserHandler :: "'s UserRepository \<Rightarrow> Values \<Rightarrow> 's \<Rightarrow> response \<times> 's" where
  "findUserHandler repo query s =
     (let id' = Get query ''id'' in
      if id' = []
      then (http_Error ''Missing id parameter'' StatusBadRequest, s)
      else case repo_Find repo id' s of
             ((user, Some err), s') \<Rightarrow> (http_Error (Error err) StatusNotFound, s')
           | ((user, None), s') \<Rightarrow> (Encode_User user, s'))"

definition updateUserHandler :: "'s UserRepository \<Rightarrow> Values \<Rightarrow> 's \<Rightarrow> response \<times> 's" where
  "updateUserHandler repo query s =
     (let id' = Get query ''id''; name = Get query ''name''; ageStr = Get query ''age'' in
      if id' = [] \<or> name = [] \<or> ageStr = []
      then (http_Error ''Missing parameters'' StatusBadRequest, s)
      else case Atoi ageStr of
             None \<Rightarrow> (http_Error ''Invalid age parameter'' StatusBadRequest, s)
           | Some age \<Rightarrow>
               (case repo_Update repo \<lparr>ID = id', Name = name, Age = age\<rparr> s of
                  (Some err, s') \<Rightarrow> (http_Error (Error err) StatusInternalServerError, s')
                | (None, s') \<Rightarrow> (WriteHeader StatusOK, s')))"

definition deleteUserHandler :: "'s UserRepository \<Rightarrow> Values \<Rightarrow> 's \<Rightarrow> response \<times> 's" where
  "deleteUserHandler repo query s =
     (let id' = Get query ''id'' in
      if id' = []
      then (http_Error ''Missing id parameter'' StatusBadRequest, s)
      else case repo_Delete repo id' s of
             (Some err, s') \<Rightarrow> (http_Error (Error err) StatusInternalServerError, s')
           | (None, s') \<Rightarrow> (WriteHeader StatusOK, s'))"

section \<open>Properties of the repository\<close>

text \<open>
  C1. When the id of \<open>user\<close> is not a key of the map, \<open>Create\<close> returns no error and the
  map afterwards is the map before with the one entry \<open>ID user \<mapsto> user\<close> added; \<open>Find\<close>
  of that id on the resulting repository returns no error and the record \<open>user\<close> itself.
\<close>

theorem Create_then_Find:
  assumes "users repo (ID user) = None"
  shows "fst (Create repo user) = None
       \<and> users (snd (Create repo user)) = (users repo)(ID user \<mapsto> user)
       \<and> dom (users (snd (Create repo user))) = insert (ID user) (dom (users repo))
       \<and> Find (snd (Create repo user)) (ID user) = (user, None)"
  using assms by (simp add: Create_def Find_def)

theorem Create_then_Find_witness:
  "users NewInMemoryUserRepository (ID \<lparr>ID = ''1'', Name = ''Alice'', Age = 30\<rparr>) = None
   \<and> fst (Create NewInMemoryUserRepository \<lparr>ID = ''1'', Name = ''Alice'', Age = 30\<rparr>) = None
   \<and> Find (snd (Create NewInMemoryUserRepository \<lparr>ID = ''1'', Name = ''Alice'', Age = 30\<rparr>)) ''1''
       = (\<lparr>ID = ''1'', Name = ''Alice'', Age = 30\<rparr>, None)"
proof -
  have free: "users NewInMemoryUserRepository (ID \<lparr>ID = ''1'', Name = ''Alice'', Age = 30\<rparr>) = None"
    by (simp add: NewInMemoryUserRepository_def)
  show ?thesis
    using free Create_then_Find [OF free] by simp
qed

text \<open>
  C2. When the map already has an entry under the id of \<open>user\<close>, \<open>Create\<close> returns the
  error \<open>AlreadyExists\<close> and the repository it leaves is the repository it was given: the
  entry under that id, and every other entry, is as before.
\<close>

theorem Create_existing_fails:
  assumes "users repo k = Some stored" and "ID user = k"
  shows "Create repo user = (Some AlreadyExists, repo)
       \<and> users (snd (Create repo user)) k = Some stored
       \<and> users (snd (Create repo user)) = users repo"
  using assms by (simp add: Create_def AlreadyExists_def)

theorem Create_existing_fails_witness:
  "users \<lparr>users = [''1'' \<mapsto> \<lparr>ID = ''1'', Name = ''Alice'', Age = 30\<rparr>]\<rparr> ''1''
     = Some \<lparr>ID = ''1'', Name = ''Alice'', Age = 30\<rparr>
   \<and> ID \<lparr>ID = ''1'', Name = ''Bob'', Age = 31\<rparr> = ''1''
   \<and> fst (Create \<lparr>users = [''1'' \<mapsto> \<lparr>ID = ''1'', Name = ''Alice'', Age = 30\<rparr>]\<rparr>
             \<lparr>ID = ''1'', Name = ''Bob'', Age = 31\<rparr>)
       = Some (errors_New ''user already exists'')
   \<and> users (snd (Create \<lparr>users = [''1'' \<mapsto> \<lparr>ID = ''1'', Name = ''Alice'', Age = 30\<rparr>]\<rparr>
                    \<lparr>ID = ''1'', Name = ''Bob'', Age = 31\<rparr>)) ''1''
       = Some \<lparr>ID = ''1'', Name = ''Alice'', Age = 30\<rparr>"
  using Create_existing_fails
    [of "\<lparr>users = [''1'' \<mapsto> \<lparr>ID = ''1'', Name = ''Alice'', Age = 30\<rparr>]\<rparr>" "''1''"
        "\<lparr>ID = ''1'', Name = ''Alice'', Age = 30\<rparr>" "\<lparr>ID = ''1'', Name = ''Bob'', Age = 31\<rparr>"]
  by (simp add: AlreadyExists_def)

text \<open>
  C3. When \<open>k\<close> is not a key of the map (never created, or deleted since), \<open>Find\<close> of
  \<open>k\<close> returns the error \<open>NotFound\<close> (with the zero user), \<open>Update\<close> of any record
  whose id is \<open>k\<close> returns \<open>NotFound\<close>, and \<open>Delete\<close> of \<open>k\<close> returns \<open>NotFound\<close>;
  the two writing methods leave the repository as it was.
\<close>

theorem absent_id_NotFound:
  assumes "users repo k = None"
  shows "Find repo k = (User_zero, Some NotFound)
       \<and> (\<forall>user. ID user = k \<longrightarrow> Update repo user = (Some NotFound, repo))
       \<and> Delete repo k = (Some NotFound, repo)"
  using assms by (simp add: Find_def Update_def Delete_def NotFound_def)

theorem absent_id_NotFound_witness:
  "users NewInMemoryUserRepository ''7'' = None
   \<and> snd (Find NewInMemoryUserRepository ''7'') = Some (errors_New ''user not found'')
   \<and> ID \<lparr>ID = ''7'', Name = ''Bob'', Age = 31\<rparr> = ''7''
   \<and> fst (Update NewInMemoryUserRepository \<lparr>ID = ''7'', Name = ''Bob'', Age = 31\<rparr>)
       = Some (errors_New ''user not found'')
   \<and> fst (Delete NewInMemoryUserRepository ''7'') = Some (errors_New ''user not found'')"
proof -
  have absent: "users NewInMemoryUserRepository ''7'' = None"
    by (simp add: NewInMemoryUserRepository_def)
  have named: "ID \<lparr>ID = ''7'', Name = ''Bob'', Age = 31\<rparr> = ''7''"
    by simp
  from absent_id_NotFound [OF absent]
  have "Find NewInMemoryUserRepository ''7'' = (User_zero, Some NotFound)"
    and "Update NewInMemoryUserRepository \<lparr>ID = ''7'', Name = ''Bob'', Age = 31\<rparr>
           = (Some NotFound, NewInMemoryUserRepository)"
    and "Delete NewInMemoryUserRepository ''7'' = (Some NotFound, NewInMemoryUserRepository)"
    using named by blast+
  with absent named show ?thesis
    by (simp add: NotFound_def)
qed

text \<open>
  C4. Whenever \<open>Delete\<close> of an id returns no error, \<open>Find\<close> of the same id on the
  repository it leaves returns \<open>NotFound\<close>.
\<close>

theorem Delete_then_Find:
  assumes "fst (Delete repo k) = None"
  shows "Find (snd (Delete repo k)) k = (User_zero, Some NotFound)"
  using assms by (simp add: Delete_def Find_def NotFound_def split: option.splits)

theorem Delete_then_Find_witness:
  "fst (Delete \<lparr>users = [''1'' \<mapsto> \<lparr>ID = ''1'', Name = ''Alice'', Age = 30\<rparr>]\<rparr> ''1'') = None
   \<and> snd (Find (snd (Delete \<lparr>users = [''1'' \<mapsto> \<lparr>ID = ''1'', Name = ''Alice'', Age = 30\<rparr>]\<rparr> ''1'')) ''1'')
       = Some (errors_New ''user not found'')"
proof -
  have deleted: "fst (Delete \<lparr>users = [''1'' \<mapsto> \<lparr>ID = ''1'', Name = ''Alice'', Age = 30\<rparr>]\<rparr> ''1'') = None"
    by (simp add: Delete_def)
  show ?thesis
    using deleted Delete_then_Find [OF deleted] by (simp add: NotFound_def)
qed

subsection \<open>What the loop of \<open>List\<close> collects\<close>

lemma range_append_entries:
  "set ks \<subseteq> dom m \<Longrightarrow> map Some (range_append m ks userList) = map Some userList @ map m ks"
  by (induction ks arbitrary: userList) auto

lemma count_list_map_distinct:
  "distinct ks \<Longrightarrow> count_list (map f ks) y = card {k \<in> set ks. f k = y}"
proof (induction ks)
  case Nil
  then show ?case by simp
next
  case (Cons k ks)
  have fin: "finite {x \<in> set ks. f x = y}" by simp
  have notin: "k \<notin> {x \<in> set ks. f x = y}" using Cons.prems by simp
  show ?case
  proof (cases "f k = y")
    case True
    then have "{x \<in> set (k # ks). f x = y} = insert k {x \<in> set ks. f x = y}" by auto
    with True Cons fin notin show ?thesis by simp
  next
    case False
    then have "{x \<in> set (k # ks). f x = y} = {x \<in> set ks. f x = y}" by auto
    with False Cons show ?thesis by simp
  qed
qed

lemma count_list_map_Some: "count_list (map Some xs) (Some x) = count_list xs x"
  by (induction xs) auto

lemma List_entries:
  assumes "range_order (users repo) ks"
  shows "map Some (fst (List repo ks)) = map (users repo) ks"
  using assms range_append_entries [of ks "users repo" "[]"]
  by (simp add: List_def range_order_def)

lemma List_length:
  assumes "range_order (users repo) ks"
  shows "length (fst (List repo ks)) = card (dom (users repo))"
proof -
  have "length (map Some (fst (List repo ks))) = length (map (users repo) ks)"
    using List_entries [OF assms] by simp
  then have "length (fst (List repo ks)) = length ks" by simp
  also have "\<dots> = card (dom (users repo))"
    using assms distinct_card [of ks] by (simp add: range_order_def)
  finally show ?thesis .
qed

lemma List_set:
  assumes "range_order (users repo) ks"
  shows "set (fst (List repo ks)) = ran (users repo)"
proof -
  have "Some ` set (fst (List repo ks)) = set (map (users repo) ks)"
    using List_entries [OF assms] by (metis image_set)
  then have entries: "Some ` set (fst (List repo ks)) = users repo ` dom (users repo)"
    using assms by (simp add: range_order_def)
  show ?thesis
  proof (rule set_eqI)
    fix user
    have "user \<in> set (fst (List repo ks)) \<longleftrightarrow> Some user \<in> Some ` set (fst (List repo ks))"
      by auto
    also have "\<dots> \<longleftrightarrow> Some user \<in> users repo ` dom (users repo)"
      by (simp only: entries)
    also have "\<dots> \<longleftrightarrow> (\<exists>k. users repo k = Some user)"
      by force
    also have "\<dots> \<longleftrightarrow> user \<in> ran (users repo)"
      by (simp add: ran_def)
    finally show "user \<in> set (fst (List repo ks)) \<longleftrightarrow> user \<in> ran (users repo)" .
  qed
qed

lemma List_count:
  assumes "range_order (users repo) ks"
  shows "count_list (fst (List repo ks)) user = card {k. users repo k = Some user}"
proof -
  have "count_list (fst (List repo ks)) user = count_list (map (users repo) ks) (Some user)"
    using List_entries [OF assms] count_list_map_Some by metis
  also have "\<dots> = card {k \<in> set ks. users repo k = Some user}"
    using assms by (simp add: count_list_map_distinct range_order_def)
  also have "{k \<in> set ks. users repo k = Some user} = {k. users repo k = Some user}"
    using assms by (auto simp add: range_order_def)
  finally show ?thesis .
qed

lemma List_empty:
  assumes "range_order (users repo) ks"
  shows "(fst (List repo ks) = []) = (users repo = Map.empty)"
proof -
  have "(fst (List repo ks) = []) = (card (dom (users repo)) = 0)"
    using List_length [OF assms] by (metis length_0_conv)
  moreover have "finite (dom (users repo))"
    using assms by (metis List.finite_set range_order_def)
  ultimately show ?thesis by simp
qed

lemma keyed_by_ID_once:
  assumes "keyed_by_ID m" and "m k = Some user"
  shows "{k'. m k' = Some user} = {k}"
  using assms by (auto simp add: keyed_by_ID_def)

lemma ascending_range_order:
  "finite (dom (users repo)) \<Longrightarrow> range_order (users repo) (ascending repo)"
  by (simp add: range_order_def ascending_def)

text \<open>
  C5. \<open>List\<close> returns no error, whatever the repository and the order of the visit.
  When the loop visits every key of the map once, in any order, the list it returns has
  one element for each entry of the map, the record stored there: position by position
  it holds the records under the keys visited, so its length is the number of entries
  and its elements are the stored records; a record occurs in it as often as there are
  keys holding it, which is exactly once when every record is stored under its own id,
  as in every repository the methods can build. The list is empty exactly when the map
  is.
\<close>

theorem List_returns_every_entry_once:
  "snd (List repo ks) = None
   \<and> (range_order (users repo) ks \<longrightarrow>
        map Some (fst (List repo ks)) = map (users repo) ks
      \<and> length (fst (List repo ks)) = card (dom (users repo))
      \<and> set (fst (List repo ks)) = ran (users repo)
      \<and> (\<forall>user. count_list (fst (List repo ks)) user = card {k. users repo k = Some user})
      \<and> (\<forall>k user. keyed_by_ID (users repo) \<and> users repo k = Some user \<longrightarrow>
            count_list (fst (List repo ks)) user = 1)
      \<and> ((fst (List repo ks) = []) = (users repo = Map.empty)))"
proof -
  have never_fails: "snd (List repo ks) = None"
    by (simp add: List_def)
  have "count_list (fst (List repo ks)) user = 1"
    if "range_order (users repo) ks" and "keyed_by_ID (users repo)" and "users repo k = Some user"
    for k user
    using that List_count [of repo ks user] keyed_by_ID_once [of "users repo" k user] by simp
  with never_fails show ?thesis
    using List_entries List_length List_set List_count List_empty by blast
qed

theorem List_returns_every_entry_once_witness:
  "range_order (users \<lparr>users = [''1'' \<mapsto> \<lparr>ID = ''1'', Name = ''Alice'', Age = 30\<rparr>,
                                 ''2'' \<mapsto> \<lparr>ID = ''2'', Name = ''Carol'', Age = 40\<rparr>]\<rparr>) [''2'', ''1'']
   \<and> keyed_by_ID (users \<lparr>users = [''1'' \<mapsto> \<lparr>ID = ''1'', Name = ''Alice'', Age = 30\<rparr>,
                                  ''2'' \<mapsto> \<lparr>ID = ''2'', Name = ''Carol'', Age = 40\<rparr>]\<rparr>)
   \<and> List \<lparr>users = [''1'' \<mapsto> \<lparr>ID = ''1'', Name = ''Alice'', Age = 30\<rparr>,
                     ''2'' \<mapsto> \<lparr>ID = ''2'', Name = ''Carol'', Age = 40\<rparr>]\<rparr> [''2'', ''1'']
       = ([\<lparr>ID = ''2'', Name = ''Carol'', Age = 40\<rparr>, \<lparr>ID = ''1'', Name = ''Alice'', Age = 30\<rparr>], None)
   \<and> count_list (fst (List \<lparr>users = [''1'' \<mapsto> \<lparr>ID = ''1'', Name = ''Alice'', Age = 30\<rparr>,
                                     ''2'' \<mapsto> \<lparr>ID = ''2'', Name = ''Carol'', Age = 40\<rparr>]\<rparr> [''2'', ''1'']))
        \<lparr>ID = ''1'', Name = ''Alice'', Age = 30\<rparr> = 1
   \<and> length (fst (List \<lparr>users = [''1'' \<mapsto> \<lparr>ID = ''1'', Name = ''Alice'', Age = 30\<rparr>,
                                 ''2'' \<mapsto> \<lparr>ID = ''2'', Name = ''Carol'', Age = 40\<rparr>]\<rparr> [''2'', ''1'']))
       = card (dom (users \<lparr>users = [''1'' \<mapsto> \<lparr>ID = ''1'', Name = ''Alice'', Age = 30\<rparr>,
                                     ''2'' \<mapsto> \<lparr>ID = ''2'', Name = ''Carol'', Age = 40\<rparr>]\<rparr>))
   \<and> fst (List NewInMemoryUserRepository []) = []"
proof -
  let ?alice = "\<lparr>ID = ''1'', Name = ''Alice'', Age = 30\<rparr>"
  let ?carol = "\<lparr>ID = ''2'', Name = ''Carol'', Age = 40\<rparr>"
  let ?repo = "\<lparr>users = [''1'' \<mapsto> ?alice, ''2'' \<mapsto> ?carol]\<rparr>"
  have order: "range_order (users ?repo) [''2'', ''1'']"
    by (simp add: range_order_def insert_commute)
  have keyed: "keyed_by_ID (users ?repo)"
    by (simp add: keyed_by_ID_def)
  have stored: "users ?repo ''1'' = Some ?alice"
    by simp
  have result: "List ?repo [''2'', ''1''] = ([?carol, ?alice], None)"
    by (simp add: List_def)
  note inst = List_returns_every_entry_once [of ?repo "[''2'', ''1'']", THEN conjunct2, rule_format, OF order]
  have once: "count_list (fst (List ?repo [''2'', ''1''])) ?alice = 1"
    using inst [THEN conjunct2, THEN conjunct2, THEN conjunct2, THEN conjunct2, THEN conjunct1,
               rule_format, of "''1''" ?alice] keyed stored
    by simp
  have len: "length (fst (List ?repo [''2'', ''1''])) = card (dom (users ?repo))"
    using inst [THEN conjunct2, THEN conjunct1] .
  have no_keys: "range_order (users NewInMemoryUserRepository) []"
    by (simp add: range_order_def NewInMemoryUserRepository_def)
  have empty_store: "fst (List NewInMemoryUserRepository []) = []"
    using List_returns_every_entry_once [of NewInMemoryUserRepository "[]", THEN conjunct2,
               rule_format, OF no_keys]
    by (simp add: NewInMemoryUserRepository_def)
  from order keyed result once len empty_store show ?thesis
    by (intro conjI)
qed

text \<open>
  C6. When the map has an entry under \<open>k\<close> and the incoming record has id \<open>k\<close>,
  \<open>Update\<close> returns no error, the entry under \<open>k\<close> afterwards is the incoming record as
  a whole (so each of its three fields is the incoming one, whatever was stored), and
  the entry under every other key is as before.
\<close>

theorem Update_overwrites:
  assumes "users repo k = Some stored" and "ID user = k"
  shows "fst (Update repo user) = None
       \<and> users (snd (Update repo user)) k = Some user
       \<and> (\<forall>k'. k' \<noteq> k \<longrightarrow> users (snd (Update repo user)) k' = users repo k')
       \<and> dom (users (snd (Update repo user))) = dom (users repo)"
  using assms by (auto simp add: Update_def)

theorem Update_overwrites_witness:
  "users \<lparr>users = [''1'' \<mapsto> \<lparr>ID = ''1'', Name = ''Alice'', Age = 30\<rparr>,
                   ''2'' \<mapsto> \<lparr>ID = ''2'', Name = ''Carol'', Age = 40\<rparr>]\<rparr> ''1''
     = Some \<lparr>ID = ''1'', Name = ''Alice'', Age = 30\<rparr>
   \<and> ID \<lparr>ID = ''1'', Name = ''Bob'', Age = 31\<rparr> = ''1''
   \<and> fst (Update \<lparr>users = [''1'' \<mapsto> \<lparr>ID = ''1'', Name = ''Alice'', Age = 30\<rparr>,
                            ''2'' \<mapsto> \<lparr>ID = ''2'', Name = ''Carol'', Age = 40\<rparr>]\<rparr>
             \<lparr>ID = ''1'', Name = ''Bob'', Age = 31\<rparr>) = None
   \<and> users (snd (Update \<lparr>users = [''1'' \<mapsto> \<lparr>ID = ''1'', Name = ''Alice'', Age = 30\<rparr>,
                                   ''2'' \<mapsto> \<lparr>ID = ''2'', Name = ''Carol'', Age = 40\<rparr>]\<rparr>
                    \<lparr>ID = ''1'', Name = ''Bob'', Age = 31\<rparr>)) ''1''
       = Some \<lparr>ID = ''1'', Name = ''Bob'', Age = 31\<rparr>
   \<and> users (snd (Update \<lparr>users = [''1'' \<mapsto> \<lparr>ID = ''1'', Name = ''Alice'', Age = 30\<rparr>,
                                   ''2'' \<mapsto> \<lparr>ID = ''2'', Name = ''Carol'', Age = 40\<rparr>]\<rparr>
                    \<lparr>ID = ''1'', Name = ''Bob'', Age = 31\<rparr>)) ''2''
       = Some \<lparr>ID = ''2'', Name = ''Carol'', Age = 40\<rparr>"
proof -
  let ?repo = "\<lparr>users = [''1'' \<mapsto> \<lparr>ID = ''1'', Name = ''Alice'', Age = 30\<rparr>,
                         ''2'' \<mapsto> \<lparr>ID = ''2'', Name = ''Carol'', Age = 40\<rparr>]\<rparr>"
  let ?bob = "\<lparr>ID = ''1'', Name = ''Bob'', Age = 31\<rparr>"
  have stored: "users ?repo ''1'' = Some \<lparr>ID = ''1'', Name = ''Alice'', Age = 30\<rparr>"
    by simp
  have named: "ID ?bob = ''1''"
    by simp
  note upd = Update_overwrites [OF stored named]
  have kept: "users (snd (Update ?repo ?bob)) ''2'' = users ?repo ''2''"
    using upd [THEN conjunct2, THEN conjunct2, THEN conjunct1, rule_format, of "''2''"]
    by simp
  from upd have "fst (Update ?repo ?bob) = None"
    and "users (snd (Update ?repo ?bob)) ''1'' = Some ?bob"
    by simp_all
  with kept stored named show ?thesis
    by simp
qed

subsection \<open>Runs from the empty repository\<close>

lemma finite_dom_after:
  "finite (dom (users repo)) \<Longrightarrow> finite (dom (users (after repo c)))"
  by (cases c) (simp_all add: Create_def Update_def Delete_def split: option.splits)

lemma balance_after:
  assumes "finite (dom (users repo))"
  shows "card (dom (users (after repo c))) + (if Delete_succeeded repo c then 1 else 0)
       = card (dom (users repo)) + (if Create_succeeded repo c then 1 else 0)"
proof (cases c)
  case (Create_call user)
  show ?thesis
  proof (cases "users repo (ID user)")
    case None
    then have "ID user \<notin> dom (users repo)" by (simp add: dom_def)
    with assms None Create_call show ?thesis by (simp add: Create_def)
  next
    case (Some stored)
    with Create_call show ?thesis by (simp add: Create_def)
  qed
next
  case (List_call ks)
  then show ?thesis by simp
next
  case (Find_call k)
  then show ?thesis by simp
next
  case (Update_call user)
  show ?thesis
  proof (cases "users repo (ID user)")
    case None
    with Update_call show ?thesis by (simp add: Update_def)
  next
    case (Some stored)
    then have "insert (ID user) (dom (users repo)) = dom (users repo)" by auto
    with Some Update_call show ?thesis by (simp add: Update_def)
  qed
next
  case (Delete_call k)
  show ?thesis
  proof (cases "users repo k")
    case None
    with Delete_call show ?thesis by (simp add: Delete_def)
  next
    case (Some stored)
    then have "k \<in> dom (users repo)" by auto
    then have "card (dom (users repo) - {k}) + 1 = card (dom (users repo))"
      using assms by (metis Suc_eq_plus1 card_Suc_Diff1)
    with Some Delete_call show ?thesis by (simp add: Delete_def)
  qed
qed

lemma balance_run:
  "finite (dom (users repo)) \<Longrightarrow>
     finite (dom (users (run repo cs)))
   \<and> card (dom (users (run repo cs))) + successful_Deletes repo cs
       = card (dom (users repo)) + successful_Creates repo cs"
proof (induction cs arbitrary: repo)
  case Nil
  then show ?case by simp
next
  case (Cons c cs)
  have fin: "finite (dom (users (after repo c)))"
    using Cons.prems by (rule finite_dom_after)
  from Cons.IH [OF fin] balance_after [OF Cons.prems, of c] show ?case
    by (simp split: if_splits)
qed

lemma balance_from_empty:
  "finite (dom (users (run NewInMemoryUserRepository cs)))
   \<and> card (dom (users (run NewInMemoryUserRepository cs)))
        + successful_Deletes NewInMemoryUserRepository cs
       = successful_Creates NewInMemoryUserRepository cs"
  using balance_run [of NewInMemoryUserRepository cs]
  by (simp add: NewInMemoryUserRepository_def)

text \<open>
  C9. Take any sequence of calls made one after another on a repository that starts
  empty; the calls made up to any point of a run are such a sequence. The map then has
  finitely many keys, so a \<open>List\<close> at that point has an order to visit them in, and for
  every such order the length of the list it returns is the number of \<open>Create\<close> calls
  so far that returned no error minus the number of \<open>Delete\<close> calls so far that
  returned no error.
\<close>

theorem List_length_is_Creates_minus_Deletes:
  "(\<exists>ks. range_order (users (run NewInMemoryUserRepository cs)) ks)
   \<and> (\<forall>ks. range_order (users (run NewInMemoryUserRepository cs)) ks \<longrightarrow>
         int (length (fst (List (run NewInMemoryUserRepository cs) ks)))
           = int (successful_Creates NewInMemoryUserRepository cs)
             - int (successful_Deletes NewInMemoryUserRepository cs))"
proof -
  let ?repo = "run NewInMemoryUserRepository cs"
  have "\<exists>ks. set ks = dom (users ?repo) \<and> distinct ks"
    using balance_from_empty [of cs] finite_distinct_list by blast
  then have can_range: "\<exists>ks. range_order (users ?repo) ks"
    by (auto simp add: range_order_def)
  have "int (length (fst (List ?repo ks)))
          = int (successful_Creates NewInMemoryUserRepository cs)
            - int (successful_Deletes NewInMemoryUserRepository cs)"
    if "range_order (users ?repo) ks" for ks
    using List_length [OF that] balance_from_empty [of cs] by simp
  with can_range show ?thesis by blast
qed

theorem List_length_is_Creates_minus_Deletes_witness:
  "range_order
     (users (run NewInMemoryUserRepository
        [Create_call \<lparr>ID = ''1'', Name = ''Alice'', Age = 30\<rparr>,
         Create_call \<lparr>ID = ''2'', Name = ''Carol'', Age = 40\<rparr>,
         List_call [''2'', ''1''],
         Create_call \<lparr>ID = ''1'', Name = ''Bob'', Age = 31\<rparr>,
         Update_call \<lparr>ID = ''1'', Name = ''Bob'', Age = 31\<rparr>,
         Find_call ''1'',
         Delete_call ''2'',
         Delete_call ''2''])) [''1'']
   \<and> successful_Creates NewInMemoryUserRepository
        [Create_call \<lparr>ID = ''1'', Name = ''Alice'', Age = 30\<rparr>,
         Create_call \<lparr>ID = ''2'', Name = ''Carol'', Age = 40\<rparr>,
         List_call [''2'', ''1''],
         Create_call \<lparr>ID = ''1'', Name = ''Bob'', Age = 31\<rparr>,
         Update_call \<lparr>ID = ''1'', Name = ''Bob'', Age = 31\<rparr>,
         Find_call ''1'',
         Delete_call ''2'',
         Delete_call ''2''] = 2
   \<and> successful_Deletes NewInMemoryUserRepository
        [Create_call \<lparr>ID = ''1'', Name = ''Alice'', Age = 30\<rparr>,
         Create_call \<lparr>ID = ''2'', Name = ''Carol'', Age = 40\<rparr>,
         List_call [''2'', ''1''],
         Create_call \<lparr>ID = ''1'', Name = ''Bob'', Age = 31\<rparr>,
         Update_call \<lparr>ID = ''1'', Name = ''Bob'', Age = 31\<rparr>,
         Find_call ''1'',
         Delete_call ''2'',
         Delete_call ''2''] = 1
   \<and> length (fst (List (run NewInMemoryUserRepository
        [Create_call \<lparr>ID = ''1'', Name = ''Alice'', Age = 30\<rparr>,
         Create_call \<lparr>ID = ''2'', Name = ''Carol'', Age = 40\<rparr>,
         List_call [''2'', ''1''],
         Create_call \<lparr>ID = ''1'', Name = ''Bob'', Age = 31\<rparr>,
         Update_call \<lparr>ID = ''1'', Name = ''Bob'', Age = 31\<rparr>,
         Find_call ''1'',
         Delete_call ''2'',
         Delete_call ''2'']) [''1''])) = 1"
proof -
  let ?cs = "[Create_call \<lparr>ID = ''1'', Name = ''Alice'', Age = 30\<rparr>,
         Create_call \<lparr>ID = ''2'', Name = ''Carol'', Age = 40\<rparr>,
         List_call [''2'', ''1''],
         Create_call \<lparr>ID = ''1'', Name = ''Bob'', Age = 31\<rparr>,
         Update_call \<lparr>ID = ''1'', Name = ''Bob'', Age = 31\<rparr>,
         Find_call ''1'',
         Delete_call ''2'',
         Delete_call ''2'']"
  have final: "users (run NewInMemoryUserRepository ?cs)
                 = [''1'' \<mapsto> \<lparr>ID = ''1'', Name = ''Bob'', Age = 31\<rparr>]"
    by (simp add: NewInMemoryUserRepository_def Create_def Update_def Delete_def fun_upd_twist)
  have order: "range_order (users (run NewInMemoryUserRepository ?cs)) [''1'']"
    unfolding final by (simp add: range_order_def)
  have creates: "successful_Creates NewInMemoryUserRepository ?cs = 2"
    by (simp add: NewInMemoryUserRepository_def Create_def Update_def Delete_def)
  have deletes: "successful_Deletes NewInMemoryUserRepository ?cs = 1"
    by (simp add: NewInMemoryUserRepository_def Create_def Update_def Delete_def)
  have "int (length (fst (List (run NewInMemoryUserRepository ?cs) [''1''])))
          = int (successful_Creates NewInMemoryUserRepository ?cs)
            - int (successful_Deletes NewInMemoryUserRepository ?cs)"
    using List_length_is_Creates_minus_Deletes [of ?cs, THEN conjunct2, rule_format, OF order] .
  then have "length (fst (List (run NewInMemoryUserRepository ?cs) [''1''])) = 1"
    unfolding creates deletes by simp
  with order creates deletes show ?thesis
    by (intro conjI)
qed

lemma keyed_by_ID_after:
  "keyed_by_ID (users repo) \<Longrightarrow> keyed_by_ID (users (after repo c))"
  by (cases c) (auto simp add: keyed_by_ID_def Create_def Update_def Delete_def split: option.splits)

lemma keyed_by_ID_run:
  "keyed_by_ID (users repo) \<Longrightarrow> keyed_by_ID (users (run repo cs))"
  by (induction cs arbitrary: repo) (simp_all add: keyed_by_ID_after)

text \<open>
  C10. In every repository reached from the empty one by any sequence of calls, every
  entry of the map is stored under the \<open>ID\<close> of its record; so whenever \<open>Find\<close> of an id
  returns a user without error, the \<open>ID\<close> of that user is the id asked for.
\<close>

theorem keys_are_IDs:
  "keyed_by_ID (users (run NewInMemoryUserRepository cs))
   \<and> (\<forall>id' user. Find (run NewInMemoryUserRepository cs) id' = (user, None) \<longrightarrow> ID user = id')"
proof -
  have "keyed_by_ID (users NewInMemoryUserRepository)"
    by (simp add: keyed_by_ID_def NewInMemoryUserRepository_def)
  then have keyed: "keyed_by_ID (users (run NewInMemoryUserRepository cs))"
    by (rule keyed_by_ID_run)
  then have "ID user = id'" if "Find (run NewInMemoryUserRepository cs) id' = (user, None)" for id' user
    using that by (auto simp add: Find_def keyed_by_ID_def split: option.splits)
  with keyed show ?thesis by blast
qed

theorem keys_are_IDs_witness:
  "Find (run NewInMemoryUserRepository
        [Create_call \<lparr>ID = ''1'', Name = ''Alice'', Age = 30\<rparr>,
         Create_call \<lparr>ID = ''2'', Name = ''Carol'', Age = 40\<rparr>,
         Update_call \<lparr>ID = ''1'', Name = ''Bob'', Age = 31\<rparr>,
         Delete_call ''2'']) ''1'' = (\<lparr>ID = ''1'', Name = ''Bob'', Age = 31\<rparr>, None)
   \<and> ID \<lparr>ID = ''1'', Name = ''Bob'', Age = 31\<rparr> = ''1''
   \<and> keyed_by_ID (users (run NewInMemoryUserRepository
        [Create_call \<lparr>ID = ''1'', Name = ''Alice'', Age = 30\<rparr>,
         Create_call \<lparr>ID = ''2'', Name = ''Carol'', Age = 40\<rparr>,
         Update_call \<lparr>ID = ''1'', Name = ''Bob'', Age = 31\<rparr>,
         Delete_call ''2'']))"
proof -
  let ?cs = "[Create_call \<lparr>ID = ''1'', Name = ''Alice'', Age = 30\<rparr>,
         Create_call \<lparr>ID = ''2'', Name = ''Carol'', Age = 40\<rparr>,
         Update_call \<lparr>ID = ''1'', Name = ''Bob'', Age = 31\<rparr>,
         Delete_call ''2'']"
  have found: "Find (run NewInMemoryUserRepository ?cs) ''1''
                 = (\<lparr>ID = ''1'', Name = ''Bob'', Age = 31\<rparr>, None)"
    by (simp add: NewInMemoryUserRepository_def Create_def Update_def Delete_def Find_def)
  have "ID \<lparr>ID = ''1'', Name = ''Bob'', Age = 31\<rparr> = ''1''"
    using keys_are_IDs [of ?cs, THEN conjunct2, rule_format, OF found] .
  moreover have "keyed_by_ID (users (run NewInMemoryUserRepository ?cs))"
    using keys_are_IDs [of ?cs, THEN conjunct1] .
  ultimately show ?thesis
    using found by (intro conjI)
qed

section \<open>Properties of the handlers\<close>

lemma missing_parameters:
  assumes "Get query ''id'' = [] \<or> Get query ''name'' = [] \<or> Get query ''age'' = []"
  shows "createUserHandler repo query s = (http_Error ''Missing parameters'' 400, s)"
    and "updateUserHandler repo query s = (http_Error ''Missing parameters'' 400, s)"
  using assms by (simp_all add: createUserHandler_def updateUserHandler_def)

lemma invalid_age:
  assumes "Get query ''id'' \<noteq> []" and "Get query ''name'' \<noteq> []" and "Get query ''age'' \<noteq> []"
    and "Atoi (Get query ''age'') = None"
  shows "createUserHandler repo query s = (http_Error ''Invalid age parameter'' 400, s)"
    and "updateUserHandler repo query s = (http_Error ''Invalid age parameter'' 400, s)"
  using assms by (simp_all add: createUserHandler_def updateUserHandler_def)

text \<open>
  C7 (amended). For the create and the update handler, whatever implementation of
  the repository they were built with and whatever its state: when the \<open>id\<close>, the
  \<open>name\<close> or the \<open>age\<close> parameter of the query is empty, the handler replies 400 with
  the text \<open>Missing parameters\<close>; when all three are non-empty and \<open>age\<close> does not
  parse as an integer, it replies 400 with the text \<open>Invalid age parameter\<close>. In both
  cases the state of the repository afterwards is the state before. As this holds for
  every implementation, also for one that changes its state in every method, the
  handler has called no method of the repository.
\<close>

theorem rejected_before_repository:
  "(Get query ''id'' = [] \<or> Get query ''name'' = [] \<or> Get query ''age'' = [] \<longrightarrow>
      createUserHandler repo query s = (http_Error ''Missing parameters'' 400, s)
    \<and> updateUserHandler repo query s = (http_Error ''Missing parameters'' 400, s))
   \<and> (Get query ''id'' \<noteq> [] \<and> Get query ''name'' \<noteq> [] \<and> Get query ''age'' \<noteq> []
        \<and> Atoi (Get query ''age'') = None \<longrightarrow>
      createUserHandler repo query s = (http_Error ''Invalid age parameter'' 400, s)
    \<and> updateUserHandler repo query s = (http_Error ''Invalid age parameter'' 400, s))"
  using missing_parameters [of query repo s] invalid_age [of query repo s] by blast

theorem rejected_before_repository_witness:
  "Get [''id'' \<mapsto> [''1''], ''name'' \<mapsto> [''Alice'']] ''age'' = []
   \<and> createUserHandler (recording (InMemory ascending))
        [''id'' \<mapsto> [''1''], ''name'' \<mapsto> [''Alice'']] ([], NewInMemoryUserRepository)
       = (http_Error ''Missing parameters'' 400, ([], NewInMemoryUserRepository))
   \<and> updateUserHandler (recording (InMemory ascending))
        [''id'' \<mapsto> [''1''], ''name'' \<mapsto> [''Alice'']] ([], NewInMemoryUserRepository)
       = (http_Error ''Missing parameters'' 400, ([], NewInMemoryUserRepository))
   \<and> Get [''id'' \<mapsto> [''1''], ''name'' \<mapsto> [''Alice''], ''age'' \<mapsto> [''abc'']] ''id'' \<noteq> []
   \<and> Get [''id'' \<mapsto> [''1''], ''name'' \<mapsto> [''Alice''], ''age'' \<mapsto> [''abc'']] ''name'' \<noteq> []
   \<and> Get [''id'' \<mapsto> [''1''], ''name'' \<mapsto> [''Alice''], ''age'' \<mapsto> [''abc'']] ''age'' \<noteq> []
   \<and> Atoi (Get [''id'' \<mapsto> [''1''], ''name'' \<mapsto> [''Alice''], ''age'' \<mapsto> [''abc'']] ''age'') = None
   \<and> createUserHandler (recording (InMemory ascending))
        [''id'' \<mapsto> [''1''], ''name'' \<mapsto> [''Alice''], ''age'' \<mapsto> [''abc'']]
        ([], NewInMemoryUserRepository)
       = (http_Error ''Invalid age parameter'' 400, ([], NewInMemoryUserRepository))
   \<and> updateUserHandler (recording (InMemory ascending))
        [''id'' \<mapsto> [''1''], ''name'' \<mapsto> [''Alice''], ''age'' \<mapsto> [''abc'']]
        ([], NewInMemoryUserRepository)
       = (http_Error ''Invalid age parameter'' 400, ([], NewInMemoryUserRepository))"
proof -
  let ?no_age = "[''id'' \<mapsto> [''1''], ''name'' \<mapsto> [''Alice'']]"
  let ?bad_age = "[''id'' \<mapsto> [''1''], ''name'' \<mapsto> [''Alice''], ''age'' \<mapsto> [''abc'']]"
  have empty: "Get ?no_age ''age'' = []"
    by (simp add: Get_def)
  then have missing: "Get ?no_age ''id'' = [] \<or> Get ?no_age ''name'' = [] \<or> Get ?no_age ''age'' = []"
    by simp
  have present: "Get ?bad_age ''id'' \<noteq> []" "Get ?bad_age ''name'' \<noteq> []" "Get ?bad_age ''age'' \<noteq> []"
    by (simp_all add: Get_def)
  have unparsed: "Atoi (Get ?bad_age ''age'') = None"
    by (simp add: Get_def Atoi_def digit_def)
  note first = rejected_before_repository
    [of ?no_age "recording (InMemory ascending)" "([], NewInMemoryUserRepository)",
     THEN conjunct1, rule_format, OF missing]
  note second = rejected_before_repository
    [of ?bad_age "recording (InMemory ascending)" "([], NewInMemoryUserRepository)",
     THEN conjunct2, rule_format, OF conjI [OF present(1) conjI [OF present(2) conjI [OF present(3) unparsed]]]]
  from empty present unparsed first second show ?thesis
    by (intro conjI) (erule conjunct1 conjunct2 | assumption)+
qed

text \<open>
  C7. The handlers test for empty parameters before they parse \<open>age\<close>: a request with
  no \<open>id\<close> and with \<open>age=abc\<close>, whose \<open>age\<close> is non-empty and does not parse, is
  answered with the text \<open>Missing parameters\<close> and not with \<open>Invalid age parameter\<close>.
\<close>

theorem empty_id_with_bad_age_counterexample:
  "Get [''name'' \<mapsto> [''Alice''], ''age'' \<mapsto> [''abc'']] ''age'' \<noteq> []
   \<and> Atoi (Get [''name'' \<mapsto> [''Alice''], ''age'' \<mapsto> [''abc'']] ''age'') = None
   \<and> fst (createUserHandler (InMemory ascending)
        [''name'' \<mapsto> [''Alice''], ''age'' \<mapsto> [''abc'']] NewInMemoryUserRepository)
       = http_Error ''Missing parameters'' 400
   \<and> fst (createUserHandler (InMemory ascending)
        [''name'' \<mapsto> [''Alice''], ''age'' \<mapsto> [''abc'']] NewInMemoryUserRepository)
       \<noteq> http_Error ''Invalid age parameter'' 400
   \<and> fst (updateUserHandler (InMemory ascending)
        [''name'' \<mapsto> [''Alice''], ''age'' \<mapsto> [''abc'']] NewInMemoryUserRepository)
       = http_Error ''Missing parameters'' 400
   \<and> fst (updateUserHandler (InMemory ascending)
        [''name'' \<mapsto> [''Alice''], ''age'' \<mapsto> [''abc'']] NewInMemoryUserRepository)
       \<noteq> http_Error ''Invalid age parameter'' 400"
  by (simp add: Get_def Atoi_def digit_def createUserHandler_def updateUserHandler_def)

lemma find_reply:
  assumes "Get query ''id'' \<noteq> []"
  shows "repo_Find repo (Get query ''id'') s = ((user, Some err), s') \<Longrightarrow>
           findUserHandler repo query s = (http_Error (Error err) 404, s')"
  using assms by (simp add: findUserHandler_def)

lemma create_reply:
  assumes "Get query ''id'' \<noteq> []" and "Get query ''name'' \<noteq> []" and "Get query ''age'' \<noteq> []"
    and "Atoi (Get query ''age'') = Some age"
  shows "repo_Create repo \<lparr>ID = Get query ''id'', Name = Get query ''name'', Age = age\<rparr> s = (Some err, s')
           \<Longrightarrow> createUserHandler repo query s = (http_Error (Error err) 500, s')"
    and "repo_Create repo \<lparr>ID = Get query ''id'', Name = Get query ''name'', Age = age\<rparr> s = (None, s')
           \<Longrightarrow> createUserHandler repo query s = (WriteHeader 201, s')"
  using assms by (simp_all add: createUserHandler_def)

lemma update_reply:
  assumes "Get query ''id'' \<noteq> []" and "Get query ''name'' \<noteq> []" and "Get query ''age'' \<noteq> []"
    and "Atoi (Get query ''age'') = Some age"
  shows "repo_Update repo \<lparr>ID = Get query ''id'', Name = Get query ''name'', Age = age\<rparr> s = (Some err, s')
           \<Longrightarrow> updateUserHandler repo query s = (http_Error (Error err) 500, s')"
    and "repo_Update repo \<lparr>ID = Get query ''id'', Name = Get query ''name'', Age = age\<rparr> s = (None, s')
           \<Longrightarrow> updateUserHandler repo query s = (WriteHeader 200, s')"
  using assms by (simp_all add: updateUserHandler_def)

lemma delete_reply:
  assumes "Get query ''id'' \<noteq> []"
  shows "repo_Delete repo (Get query ''id'') s = (Some err, s') \<Longrightarrow>
           deleteUserHandler repo query s = (http_Error (Error err) 500, s')"
    and "repo_Delete repo (Get query ''id'') s = (None, s') \<Longrightarrow>
           deleteUserHandler repo query s = (WriteHeader 200, s')"
  using assms by (simp_all add: deleteUserHandler_def)

text \<open>
  C8. For a request that passes the checks of its handler, and whatever implementation
  of the repository the handler was built with: when the call on the repository returns
  an error, the find handler replies 404 with the text of the error, and the create,
  update and delete handlers reply 500 with the text of the error, whichever error it
  is; when the call returns no error, the create handler replies 201 and the update and
  delete handlers reply 200, by \<open>WriteHeader\<close> alone, so with an empty body.
\<close>

theorem error_to_status:
  "(Get query ''id'' \<noteq> [] \<and> repo_Find repo (Get query ''id'') s = ((user, Some err), s') \<longrightarrow>
      findUserHandler repo query s = (http_Error (Error err) 404, s'))
   \<and> (Get query ''id'' \<noteq> [] \<and> Get query ''name'' \<noteq> [] \<and> Get query ''age'' \<noteq> []
        \<and> Atoi (Get query ''age'') = Some age
        \<and> repo_Create repo \<lparr>ID = Get query ''id'', Name = Get query ''name'', Age = age\<rparr> s
            = (Some err, s') \<longrightarrow>
      createUserHandler repo query s = (http_Error (Error err) 500, s'))
   \<and> (Get query ''id'' \<noteq> [] \<and> Get query ''name'' \<noteq> [] \<and> Get query ''age'' \<noteq> []
        \<and> Atoi (Get query ''age'') = Some age
        \<and> repo_Update repo \<lparr>ID = Get query ''id'', Name = Get query ''name'', Age = age\<rparr> s
            = (Some err, s') \<longrightarrow>
      updateUserHandler repo query s = (http_Error (Error err) 500, s'))
   \<and> (Get query ''id'' \<noteq> [] \<and> repo_Delete repo (Get query ''id'') s = (Some err, s') \<longrightarrow>
      deleteUserHandler repo query s = (http_Error (Error err) 500, s'))
   \<and> (Get query ''id'' \<noteq> [] \<and> Get query ''name'' \<noteq> [] \<and> Get query ''age'' \<noteq> []
        \<and> Atoi (Get query ''age'') = Some age
        \<and> repo_Create repo \<lparr>ID = Get query ''id'', Name = Get query ''name'', Age = age\<rparr> s
            = (None, s') \<longrightarrow>
      createUserHandler repo query s = (WriteHeader 201, s'))
   \<and> (Get query ''id'' \<noteq> [] \<and> Get query ''name'' \<noteq> [] \<and> Get query ''age'' \<noteq> []
        \<and> Atoi (Get query ''age'') = Some age
        \<and> repo_Update repo \<lparr>ID = Get query ''id'', Name = Get query ''name'', Age = age\<rparr> s
            = (None, s') \<longrightarrow>
      updateUserHandler repo query s = (WriteHeader 200, s'))
   \<and> (Get query ''id'' \<noteq> [] \<and> repo_Delete repo (Get query ''id'') s = (None, s') \<longrightarrow>
      deleteUserHandler repo query s = (WriteHeader 200, s'))"
  using find_reply [of query repo s user err s']
        create_reply [of query age repo s] update_reply [of query age repo s]
        delete_reply [of query repo s]
  by blast

theorem error_to_status_witness:
  "snd (Find \<lparr>users = [''1'' \<mapsto> \<lparr>ID = ''1'', Name = ''Alice'', Age = 30\<rparr>]\<rparr> ''9'') = Some (errors_New ''user not found'')
   \<and> fst (findUserHandler (InMemory ascending)
        [''id'' \<mapsto> [''9'']]
        \<lparr>users = [''1'' \<mapsto> \<lparr>ID = ''1'', Name = ''Alice'', Age = 30\<rparr>]\<rparr>) = http_Error ''user not found'' 404
   \<and> fst (Create \<lparr>users = [''1'' \<mapsto> \<lparr>ID = ''1'', Name = ''Alice'', Age = 30\<rparr>]\<rparr> \<lparr>ID = ''1'', Name = ''Bob'', Age = 31\<rparr>) = Some (errors_New ''user already exists'')
   \<and> fst (createUserHandler (InMemory ascending)
        [''id'' \<mapsto> [''1''], ''name'' \<mapsto> [''Bob''], ''age'' \<mapsto> [''31'']]
        \<lparr>users = [''1'' \<mapsto> \<lparr>ID = ''1'', Name = ''Alice'', Age = 30\<rparr>]\<rparr>) = http_Error ''user already exists'' 500
   \<and> fst (Update \<lparr>users = [''1'' \<mapsto> \<lparr>ID = ''1'', Name = ''Alice'', Age = 30\<rparr>]\<rparr> \<lparr>ID = ''9'', Name = ''Bob'', Age = 31\<rparr>) = Some (errors_New ''user not found'')
   \<and> fst (updateUserHandler (InMemory ascending)
        [''id'' \<mapsto> [''9''], ''name'' \<mapsto> [''Bob''], ''age'' \<mapsto> [''31'']]
        \<lparr>users = [''1'' \<mapsto> \<lparr>ID = ''1'', Name = ''Alice'', Age = 30\<rparr>]\<rparr>) = http_Error ''user not found'' 500
   \<and> fst (Delete \<lparr>users = [''1'' \<mapsto> \<lparr>ID = ''1'', Name = ''Alice'', Age = 30\<rparr>]\<rparr> ''9'') = Some (errors_New ''user not found'')
   \<and> fst (deleteUserHandler (InMemory ascending)
        [''id'' \<mapsto> [''9'']]
        \<lparr>users = [''1'' \<mapsto> \<lparr>ID = ''1'', Name = ''Alice'', Age = 30\<rparr>]\<rparr>) = http_Error ''user not found'' 500
   \<and> fst (Create \<lparr>users = [''1'' \<mapsto> \<lparr>ID = ''1'', Name = ''Alice'', Age = 30\<rparr>]\<rparr> \<lparr>ID = ''2'', Name = ''Carol'', Age = 40\<rparr>) = None
   \<and> fst (createUserHandler (InMemory ascending)
        [''id'' \<mapsto> [''2''], ''name'' \<mapsto> [''Carol''], ''age'' \<mapsto> [''40'']]
        \<lparr>users = [''1'' \<mapsto> \<lparr>ID = ''1'', Name = ''Alice'', Age = 30\<rparr>]\<rparr>) = WriteHeader 201
   \<and> fst (Update \<lparr>users = [''1'' \<mapsto> \<lparr>ID = ''1'', Name = ''Alice'', Age = 30\<rparr>]\<rparr> \<lparr>ID = ''1'', Name = ''Bob'', Age = 31\<rparr>) = None
   \<and> fst (updateUserHandler (InMemory ascending)
        [''id'' \<mapsto> [''1''], ''name'' \<mapsto> [''Bob''], ''age'' \<mapsto> [''31'']]
        \<lparr>users = [''1'' \<mapsto> \<lparr>ID = ''1'', Name = ''Alice'', Age = 30\<rparr>]\<rparr>) = WriteHeader 200
   \<and> fst (Delete \<lparr>users = [''1'' \<mapsto> \<lparr>ID = ''1'', Name = ''Alice'', Age = 30\<rparr>]\<rparr> ''1'') = None
   \<and> fst (deleteUserHandler (InMemory ascending)
        [''id'' \<mapsto> [''1'']]
        \<lparr>users = [''1'' \<mapsto> \<lparr>ID = ''1'', Name = ''Alice'', Age = 30\<rparr>]\<rparr>) = WriteHeader 200"
proof -
  have find_missing_call: "snd (Find \<lparr>users = [''1'' \<mapsto> \<lparr>ID = ''1'', Name = ''Alice'', Age = 30\<rparr>]\<rparr> ''9'') = Some (errors_New ''user not found'')"
    by (simp add: Create_def Update_def Delete_def Find_def)
  have find_missing_hyp: "Get [''id'' \<mapsto> [''9'']] ''id'' \<noteq> [] \<and> repo_Find (InMemory ascending) (Get [''id'' \<mapsto> [''9'']] ''id'') \<lparr>users = [''1'' \<mapsto> \<lparr>ID = ''1'', Name = ''Alice'', Age = 30\<rparr>]\<rparr> = ((User_zero, Some (errors_New ''user not found'')), \<lparr>users = [''1'' \<mapsto> \<lparr>ID = ''1'', Name = ''Alice'', Age = 30\<rparr>]\<rparr>)"
    by (simp add: Get_def Atoi_def digit_def InMemory_def Create_def Update_def Delete_def Find_def)
  have find_missing: "fst (findUserHandler (InMemory ascending) [''id'' \<mapsto> [''9'']] \<lparr>users = [''1'' \<mapsto> \<lparr>ID = ''1'', Name = ''Alice'', Age = 30\<rparr>]\<rparr>) = http_Error ''user not found'' 404"
    using error_to_status
      [of "[''id'' \<mapsto> [''9'']]" "InMemory ascending" "\<lparr>users = [''1'' \<mapsto> \<lparr>ID = ''1'', Name = ''Alice'', Age = 30\<rparr>]\<rparr>"
          "User_zero" "errors_New ''user not found''" "\<lparr>users = [''1'' \<mapsto> \<lparr>ID = ''1'', Name = ''Alice'', Age = 30\<rparr>]\<rparr>" "0",
       THEN conjunct1, rule_format, OF find_missing_hyp]
    by simp
  have create_existing_call: "fst (Create \<lparr>users = [''1'' \<mapsto> \<lparr>ID = ''1'', Name = ''Alice'', Age = 30\<rparr>]\<rparr> \<lparr>ID = ''1'', Name = ''Bob'', Age = 31\<rparr>) = Some (errors_New ''user already exists'')"
    by (simp add: Create_def Update_def Delete_def Find_def)
  have create_existing_hyp: "Get [''id'' \<mapsto> [''1''], ''name'' \<mapsto> [''Bob''], ''age'' \<mapsto> [''31'']] ''id'' \<noteq> [] \<and> Get [''id'' \<mapsto> [''1''], ''name'' \<mapsto> [''Bob''], ''age'' \<mapsto> [''31'']] ''name'' \<noteq> [] \<and> Get [''id'' \<mapsto> [''1''], ''name'' \<mapsto> [''Bob''], ''age'' \<mapsto> [''31'']] ''age'' \<noteq> []
        \<and> Atoi (Get [''id'' \<mapsto> [''1''], ''name'' \<mapsto> [''Bob''], ''age'' \<mapsto> [''31'']] ''age'') = Some 31
        \<and> repo_Create (InMemory ascending) \<lparr>ID = Get [''id'' \<mapsto> [''1''], ''name'' \<mapsto> [''Bob''], ''age'' \<mapsto> [''31'']] ''id'', Name = Get [''id'' \<mapsto> [''1''], ''name'' \<mapsto> [''Bob''], ''age'' \<mapsto> [''31'']] ''name'', Age = 31\<rparr> \<lparr>users = [''1'' \<mapsto> \<lparr>ID = ''1'', Name = ''Alice'', Age = 30\<rparr>]\<rparr> = (Some (errors_New ''user already exists''), \<lparr>users = [''1'' \<mapsto> \<lparr>ID = ''1'', Name = ''Alice'', Age = 30\<rparr>]\<rparr>)"
    by (simp add: Get_def Atoi_def digit_def InMemory_def Create_def Update_def Delete_def Find_def)
  have create_existing: "fst (createUserHandler (InMemory ascending) [''id'' \<mapsto> [''1''], ''name'' \<mapsto> [''Bob''], ''age'' \<mapsto> [''31'']] \<lparr>users = [''1'' \<mapsto> \<lparr>ID = ''1'', Name = ''Alice'', Age = 30\<rparr>]\<rparr>) = http_Error ''user already exists'' 500"
    using error_to_status
      [of "[''id'' \<mapsto> [''1''], ''name'' \<mapsto> [''Bob''], ''age'' \<mapsto> [''31'']]" "InMemory ascending" "\<lparr>users = [''1'' \<mapsto> \<lparr>ID = ''1'', Name = ''Alice'', Age = 30\<rparr>]\<rparr>"
          "User_zero" "errors_New ''user already exists''" "\<lparr>users = [''1'' \<mapsto> \<lparr>ID = ''1'', Name = ''Alice'', Age = 30\<rparr>]\<rparr>" "31",
       THEN conjunct2, THEN conjunct1, rule_format, OF create_existing_hyp]
    by simp
  have update_missing_call: "fst (Update \<lparr>users = [''1'' \<mapsto> \<lparr>ID = ''1'', Name = ''Alice'', Age = 30\<rparr>]\<rparr> \<lparr>ID = ''9'', Name = ''Bob'', Age = 31\<rparr>) = Some (errors_New ''user not found'')"
    by (simp add: Create_def Update_def Delete_def Find_def)
  have update_missing_hyp: "Get [''id'' \<mapsto> [''9''], ''name'' \<mapsto> [''Bob''], ''age'' \<mapsto> [''31'']] ''id'' \<noteq> [] \<and> Get [''id'' \<mapsto> [''9''], ''name'' \<mapsto> [''Bob''], ''age'' \<mapsto> [''31'']] ''name'' \<noteq> [] \<and> Get [''id'' \<mapsto> [''9''], ''name'' \<mapsto> [''Bob''], ''age'' \<mapsto> [''31'']] ''age'' \<noteq> []
        \<and> Atoi (Get [''id'' \<mapsto> [''9''], ''name'' \<mapsto> [''Bob''], ''age'' \<mapsto> [''31'']] ''age'') = Some 31
        \<and> repo_Update (InMemory ascending) \<lparr>ID = Get [''id'' \<mapsto> [''9''], ''name'' \<mapsto> [''Bob''], ''age'' \<mapsto> [''31'']] ''id'', Name = Get [''id'' \<mapsto> [''9''], ''name'' \<mapsto> [''Bob''], ''age'' \<mapsto> [''31'']] ''name'', Age = 31\<rparr> \<lparr>users = [''1'' \<mapsto> \<lparr>ID = ''1'', Name = ''Alice'', Age = 30\<rparr>]\<rparr> = (Some (errors_New ''user not found''), \<lparr>users = [''1'' \<mapsto> \<lparr>ID = ''1'', Name = ''Alice'', Age = 30\<rparr>]\<rparr>)"
    by (simp add: Get_def Atoi_def digit_def InMemory_def Create_def Update_def Delete_def Find_def)
  have update_missing: "fst (updateUserHandler (InMemory ascending) [''id'' \<mapsto> [''9''], ''name'' \<mapsto> [''Bob''], ''age'' \<mapsto> [''31'']] \<lparr>users = [''1'' \<mapsto> \<lparr>ID = ''1'', Name = ''Alice'', Age = 30\<rparr>]\<rparr>) = http_Error ''user not found'' 500"
    using error_to_status
      [of "[''id'' \<mapsto> [''9''], ''name'' \<mapsto> [''Bob''], ''age'' \<mapsto> [''31'']]" "InMemory ascending" "\<lparr>users = [''1'' \<mapsto> \<lparr>ID = ''1'', Name = ''Alice'', Age = 30\<rparr>]\<rparr>"
          "User_zero" "errors_New ''user not found''" "\<lparr>users = [''1'' \<mapsto> \<lparr>ID = ''1'', Name = ''Alice'', Age = 30\<rparr>]\<rparr>" "31",
       THEN conjunct2, THEN conjunct2, THEN conjunct1, rule_format, OF update_missing_hyp]
    by simp
  have delete_missing_call: "fst (Delete \<lparr>users = [''1'' \<mapsto> \<lparr>ID = ''1'', Name = ''Alice'', Age = 30\<rparr>]\<rparr> ''9'') = Some (errors_New ''user not found'')"
    by (simp add: Create_def Update_def Delete_def Find_def)
  have delete_missing_hyp: "Get [''id'' \<mapsto> [''9'']] ''id'' \<noteq> [] \<and> repo_Delete (InMemory ascending) (Get [''id'' \<mapsto> [''9'']] ''id'') \<lparr>users = [''1'' \<mapsto> \<lparr>ID = ''1'', Name = ''Alice'', Age = 30\<rparr>]\<rparr> = (Some (errors_New ''user not found''), \<lparr>users = [''1'' \<mapsto> \<lparr>ID = ''1'', Name = ''Alice'', Age = 30\<rparr>]\<rparr>)"
    by (simp add: Get_def Atoi_def digit_def InMemory_def Create_def Update_def Delete_def Find_def)
  have delete_missing: "fst (deleteUserHandler (InMemory ascending) [''id'' \<mapsto> [''9'']] \<lparr>users = [''1'' \<mapsto> \<lparr>ID = ''1'', Name = ''Alice'', Age = 30\<rparr>]\<rparr>) = http_Error ''user not found'' 500"
    using error_to_status
      [of "[''id'' \<mapsto> [''9'']]" "InMemory ascending" "\<lparr>users = [''1'' \<mapsto> \<lparr>ID = ''1'', Name = ''Alice'', Age = 30\<rparr>]\<rparr>"
          "User_zero" "errors_New ''user not found''" "\<lparr>users = [''1'' \<mapsto> \<lparr>ID = ''1'', Name = ''Alice'', Age = 30\<rparr>]\<rparr>" "0",
       THEN conjunct2, THEN conjunct2, THEN conjunct2, THEN conjunct1, rule_format, OF delete_missing_hyp]
    by simp
  have create_new_call: "fst (Create \<lparr>users = [''1'' \<mapsto> \<lparr>ID = ''1'', Name = ''Alice'', Age = 30\<rparr>]\<rparr> \<lparr>ID = ''2'', Name = ''Carol'', Age = 40\<rparr>) = None"
    by (simp add: Create_def Update_def Delete_def Find_def)
  have create_new_hyp: "Get [''id'' \<mapsto> [''2''], ''name'' \<mapsto> [''Carol''], ''age'' \<mapsto> [''40'']] ''id'' \<noteq> [] \<and> Get [''id'' \<mapsto> [''2''], ''name'' \<mapsto> [''Carol''], ''age'' \<mapsto> [''40'']] ''name'' \<noteq> [] \<and> Get [''id'' \<mapsto> [''2''], ''name'' \<mapsto> [''Carol''], ''age'' \<mapsto> [''40'']] ''age'' \<noteq> []
        \<and> Atoi (Get [''id'' \<mapsto> [''2''], ''name'' \<mapsto> [''Carol''], ''age'' \<mapsto> [''40'']] ''age'') = Some 40
        \<and> repo_Create (InMemory ascending) \<lparr>ID = Get [''id'' \<mapsto> [''2''], ''name'' \<mapsto> [''Carol''], ''age'' \<mapsto> [''40'']] ''id'', Name = Get [''id'' \<mapsto> [''2''], ''name'' \<mapsto> [''Carol''], ''age'' \<mapsto> [''40'']] ''name'', Age = 40\<rparr> \<lparr>users = [''1'' \<mapsto> \<lparr>ID = ''1'', Name = ''Alice'', Age = 30\<rparr>]\<rparr> = (None, snd (Create \<lparr>users = [''1'' \<mapsto> \<lparr>ID = ''1'', Name = ''Alice'', Age = 30\<rparr>]\<rparr> \<lparr>ID = ''2'', Name = ''Carol'', Age = 40\<rparr>))"
    by (simp add: Get_def Atoi_def digit_def InMemory_def Create_def Update_def Delete_def Find_def)
  have create_new: "fst (createUserHandler (InMemory ascending) [''id'' \<mapsto> [''2''], ''name'' \<mapsto> [''Carol''], ''age'' \<mapsto> [''40'']] \<lparr>users = [''1'' \<mapsto> \<lparr>ID = ''1'', Name = ''Alice'', Age = 30\<rparr>]\<rparr>) = WriteHeader 201"
    using error_to_status
      [of "[''id'' \<mapsto> [''2''], ''name'' \<mapsto> [''Carol''], ''age'' \<mapsto> [''40'']]" "InMemory ascending" "\<lparr>users = [''1'' \<mapsto> \<lparr>ID = ''1'', Name = ''Alice'', Age = 30\<rparr>]\<rparr>"
          "User_zero" "errors_New ''user not found''" "snd (Create \<lparr>users = [''1'' \<mapsto> \<lparr>ID = ''1'', Name = ''Alice'', Age = 30\<rparr>]\<rparr> \<lparr>ID = ''2'', Name = ''Carol'', Age = 40\<rparr>)" "40",
       THEN conjunct2, THEN conjunct2, THEN conjunct2, THEN conjunct2, THEN conjunct1, rule_format, OF create_new_hyp]
    by simp
  have update_stored_call: "fst (Update \<lparr>users = [''1'' \<mapsto> \<lparr>ID = ''1'', Name = ''Alice'', Age = 30\<rparr>]\<rparr> \<lparr>ID = ''1'', Name = ''Bob'', Age = 31\<rparr>) = None"
    by (simp add: Create_def Update_def Delete_def Find_def)
  have update_stored_hyp: "Get [''id'' \<mapsto> [''1''], ''name'' \<mapsto> [''Bob''], ''age'' \<mapsto> [''31'']] ''id'' \<noteq> [] \<and> Get [''id'' \<mapsto> [''1''], ''name'' \<mapsto> [''Bob''], ''age'' \<mapsto> [''31'']] ''name'' \<noteq> [] \<and> Get [''id'' \<mapsto> [''1''], ''name'' \<mapsto> [''Bob''], ''age'' \<mapsto> [''31'']] ''age'' \<noteq> []
        \<and> Atoi (Get [''id'' \<mapsto> [''1''], ''name'' \<mapsto> [''Bob''], ''age'' \<mapsto> [''31'']] ''age'') = Some 31
        \<and> repo_Update (InMemory ascending) \<lparr>ID = Get [''id'' \<mapsto> [''1''], ''name'' \<mapsto> [''Bob''], ''age'' \<mapsto> [''31'']] ''id'', Name = Get [''id'' \<mapsto> [''1''], ''name'' \<mapsto> [''Bob''], ''age'' \<mapsto> [''31'']] ''name'', Age = 31\<rparr> \<lparr>users = [''1'' \<mapsto> \<lparr>ID = ''1'', Name = ''Alice'', Age = 30\<rparr>]\<rparr> = (None, snd (Update \<lparr>users = [''1'' \<mapsto> \<lparr>ID = ''1'', Name = ''Alice'', Age = 30\<rparr>]\<rparr> \<lparr>ID = ''1'', Name = ''Bob'', Age = 31\<rparr>))"
    by (simp add: Get_def Atoi_def digit_def InMemory_def Create_def Update_def Delete_def Find_def)
  have update_stored: "fst (updateUserHandler (InMemory ascending) [''id'' \<mapsto> [''1''], ''name'' \<mapsto> [''Bob''], ''age'' \<mapsto> [''31'']] \<lparr>users = [''1'' \<mapsto> \<lparr>ID = ''1'', Name = ''Alice'', Age = 30\<rparr>]\<rparr>) = WriteHeader 200"
    using error_to_status
      [of "[''id'' \<mapsto> [''1''], ''name'' \<mapsto> [''Bob''], ''age'' \<mapsto> [''31'']]" "InMemory ascending" "\<lparr>users = [''1'' \<mapsto> \<lparr>ID = ''1'', Name = ''Alice'', Age = 30\<rparr>]\<rparr>"
          "User_zero" "errors_New ''user not found''" "snd (Update \<lparr>users = [''1'' \<mapsto> \<lparr>ID = ''1'', Name = ''Alice'', Age = 30\<rparr>]\<rparr> \<lparr>ID = ''1'', Name = ''Bob'', Age = 31\<rparr>)" "31",
       THEN conjunct2, THEN conjunct2, THEN conjunct2, THEN conjunct2, THEN conjunct2, THEN conjunct1, rule_format, OF update_stored_hyp]
    by simp
  have delete_stored_call: "fst (Delete \<lparr>users = [''1'' \<mapsto> \<lparr>ID = ''1'', Name = ''Alice'', Age = 30\<rparr>]\<rparr> ''1'') = None"
    by (simp add: Create_def Update_def Delete_def Find_def)
  have delete_stored_hyp: "Get [''id'' \<mapsto> [''1'']] ''id'' \<noteq> [] \<and> repo_Delete (InMemory ascending) (Get [''id'' \<mapsto> [''1'']] ''id'') \<lparr>users = [''1'' \<mapsto> \<lparr>ID = ''1'', Name = ''Alice'', Age = 30\<rparr>]\<rparr> = (None, snd (Delete \<lparr>users = [''1'' \<mapsto> \<lparr>ID = ''1'', Name = ''Alice'', Age = 30\<rparr>]\<rparr> ''1''))"
    by (simp add: Get_def Atoi_def digit_def InMemory_def Create_def Update_def Delete_def Find_def)
  have delete_stored: "fst (deleteUserHandler (InMemory ascending) [''id'' \<mapsto> [''1'']] \<lparr>users = [''1'' \<mapsto> \<lparr>ID = ''1'', Name = ''Alice'', Age = 30\<rparr>]\<rparr>) = WriteHeader 200"
    using error_to_status
      [of "[''id'' \<mapsto> [''1'']]" "InMemory ascending" "\<lparr>users = [''1'' \<mapsto> \<lparr>ID = ''1'', Name = ''Alice'', Age = 30\<rparr>]\<rparr>"
          "User_zero" "errors_New ''user not found''" "snd (Delete \<lparr>users = [''1'' \<mapsto> \<lparr>ID = ''1'', Name = ''Alice'', Age = 30\<rparr>]\<rparr> ''1'')" "0",
       THEN conjunct2, THEN conjunct2, THEN conjunct2, THEN conjunct2, THEN conjunct2, THEN conjunct2, rule_format, OF delete_stored_hyp]
    by simp
  from find_missing_call find_missing create_existing_call create_existing update_missing_call update_missing delete_missing_call delete_missing create_new_call create_new update_stored_call update_stored delete_stored_call delete_stored
  show ?thesis
    by (intro conjI)
qed

end
